theory Spec2Isabelle
  imports Complex_Main "HOL-Library.Word" "HOL-Library.AList"
begin

unbundle bit_operations_syntax

section \<open>Values shared by the cache and the packet handler\<close>

text \<open>
  Python exceptions that the modelled code can raise. Every function that can raise
  returns \<open>error + 'a\<close>, with \<open>Inl\<close> for the exception. The logging of the source (the
  \<open>if __debug__\<close> blocks) changes no state and is left out.
\<close>

datatype error = KeyError | Ip6AddressFormatError | StructError

text \<open>
  \<open>Ip6Address\<close> (lib/ip6_address.py) wraps one Python integer, \<open>_address\<close>. The model
  is that integer. Hashing and equality of addresses (inherited from \<open>IpAddress\<close>) are
  equality of the integers. The string constructors of the source are written as the
  integers they denote: \<open>Ip6Address("::")\<close> is 0, \<open>Ip6Address("ff02::1")\<close> and
  \<open>Ip6Address("ff02::1:ff00:0")\<close> are the constants below (the second one is the lower end
  of the range in \<open>is_solicited_node_multicast\<close>).
\<close>

type_synonym Ip6Address = int

text \<open>Raw packet bytes (\<open>bytes\<close>, \<open>memoryview\<close>).\<close>

type_synonym bytes = "8 word list"

text \<open>
  Modelled from the spec: \<open>MacAddress\<close> (lib/mac_address.py) is not among the sources; it is
  the 48-bit link-layer address of the data model. An optional MAC (\<open>nd_opt_slla\<close>,
  \<open>nd_opt_tlla\<close>) is tested by the source for truth, which is presence of the option.
\<close>

type_synonym MacAddress = "48 word"

definition ip6_unspecified :: Ip6Address where
  "ip6_unspecified = 0"

definition ip6_all_nodes :: Ip6Address where
  "ip6_all_nodes = 0xff020000000000000000000000000001"

definition ip6_solicited_node_prefix :: Ip6Address where
  "ip6_solicited_node_prefix = 0xff0200000000000000000001ff000000"

text \<open>
  \<open>Ip6Address.__init__\<close> on an \<open>int\<close>: accepted when
  \<open>address in range(340282366920938463463374607431768211455)\<close>, otherwise the constructor
  falls through to \<open>raise Ip6AddressFormatError\<close>.
\<close>

definition Ip6Address_of_int :: "int \<Rightarrow> error + Ip6Address" where
  "Ip6Address_of_int a =
     (if 0 \<le> a \<and> a < 340282366920938463463374607431768211455 then Inr a
      else Inl Ip6AddressFormatError)"

text \<open>\<open>struct.unpack("!L", b)\<close> and \<open>struct.unpack("!H", b)\<close>: big-endian unsigned.\<close>

fun unpack_be :: "bytes \<Rightarrow> int" where
  "unpack_be [] = 0"
| "unpack_be (b # bs) = uint b * 256 ^ length bs + unpack_be bs"

definition unpack_H :: "bytes \<Rightarrow> error + int" where
  "unpack_H b = (if length b = 2 then Inr (unpack_be b) else Inl StructError)"

text \<open>
  \<open>Ip6Address.__init__\<close> on bytes: accepted when \<open>len(address) == 16\<close>; the four
  big-endian 32-bit words \<open>v1 .. v4\<close> are combined as
  \<open>(v1 << 96) + (v2 << 64) + (v3 << 32) + v4\<close>.
\<close>

definition Ip6Address_of_bytes :: "bytes \<Rightarrow> error + Ip6Address" where
  "Ip6Address_of_bytes b =
     (if length b = 16 then
        Inr (push_bit 96 (unpack_be (take 4 b)) + push_bit 64 (unpack_be (take 4 (drop 4 b)))
             + push_bit 32 (unpack_be (take 4 (drop 8 b))) + unpack_be (take 4 (drop 12 b)))
      else Inl Ip6AddressFormatError)"

text \<open>Modelled from the spec: \<open>IpAddress.is_unspecified\<close> (lib/ip_address.py) is not among
  the sources; the unspecified address is \<open>::\<close>.\<close>

definition is_unspecified :: "Ip6Address \<Rightarrow> bool" where
  "is_unspecified a \<longleftrightarrow> a = 0"

text \<open>\<open>Ip6Address.is_multicast\<close>: membership in \<open>range(ff00::, 2^128)\<close>.\<close>

definition is_multicast :: "Ip6Address \<Rightarrow> bool" where
  "is_multicast a \<longleftrightarrow>
     338953138925153547590470800371487866880 \<le> a \<and> a < 340282366920938463463374607431768211456"

text \<open>\<open>Ip6Address.solicited_node_multicast\<close>:
  \<open>Ip6Address(self._address & 0xFFFFFF | int(Ip6Address("ff02::1:ff00:0")))\<close>; in Python \<open>&\<close>
  binds tighter than \<open>|\<close>.\<close>

definition solicited_node_multicast :: "Ip6Address \<Rightarrow> error + Ip6Address" where
  "solicited_node_multicast a = Ip6Address_of_int ((a AND 0xFFFFFF) OR ip6_solicited_node_prefix)"

text \<open>\<open>Ip6Network\<close>: a network address and a mask, both as integers; \<open>Ip6Host\<close>: an address,
  its network and an optional gateway.\<close>

record Ip6Network =
  net_address :: Ip6Address
  net_mask :: int

text \<open>\<open>Ip6Network.last\<close>:
  \<open>int(self._address) + (~int(self._mask) & 0xFFFFFFFFFFFFFFFFFFFFFFFFFFFFFFFF)\<close>.\<close>

definition net_last :: "Ip6Network \<Rightarrow> Ip6Address" where
  "net_last n = net_address n + (NOT (net_mask n) AND 0xFFFFFFFFFFFFFFFFFFFFFFFFFFFFFFFF)"

text \<open>Modelled from the spec: \<open>IpNetwork.__contains__\<close> (lib/ip_address.py) is not among the
  sources. A network contains an address when the address lies between the network address
  and the network's last address.\<close>

definition network_contains :: "Ip6Network \<Rightarrow> Ip6Address \<Rightarrow> bool" where
  "network_contains n a \<longleftrightarrow> net_address n \<le> a \<and> a \<le> net_last n"

record Ip6Host =
  host_address :: Ip6Address
  host_network :: Ip6Network
  gateway :: "Ip6Address option"

section \<open>The calls to the TX dispatcher\<close>

text \<open>
  Modelled from the spec: the ICMPv6 type constants (icmp6/ps.py) and the header constants
  (ip6/ps.py, udp/ps.py) are not among the sources. Their values are those of the wire
  formats: the types are the numbers the spec gives, the IPv6 header has 40 bytes, the UDP
  header 8, and UDP is next-header 17.
\<close>

definition ICMP6_UNREACHABLE :: nat where "ICMP6_UNREACHABLE = 1"
definition ICMP6_ECHOR_REQUEST :: nat where "ICMP6_ECHOR_REQUEST = 128"
definition ICMP6_ECHOR_REPLY :: nat where "ICMP6_ECHOR_REPLY = 129"
definition ICMP6_ROUTER_SOLICITATION :: nat where "ICMP6_ROUTER_SOLICITATION = 133"
definition ICMP6_ROUTER_ADVERTISEMENT :: nat where "ICMP6_ROUTER_ADVERTISEMENT = 134"
definition ICMP6_NEIGHBOR_SOLICITATION :: nat where "ICMP6_NEIGHBOR_SOLICITATION = 135"
definition ICMP6_NEIGHBOR_ADVERTISEMENT :: nat where "ICMP6_NEIGHBOR_ADVERTISEMENT = 136"
definition IP6_HEADER_LEN :: nat where "IP6_HEADER_LEN = 40"
definition UDP_HEADER_LEN :: nat where "UDP_HEADER_LEN = 8"
definition IP6_NEXT_HEADER_UDP :: "8 word" where "IP6_NEXT_HEADER_UDP = 17"

text \<open>The ND options the code builds: \<open>Icmp6NdOptSLLA(mac)\<close> and \<open>Icmp6NdOptTLLA(mac)\<close>.\<close>

datatype Icmp6NdOpt = Icmp6NdOptSLLA MacAddress | Icmp6NdOptTLLA MacAddress

text \<open>
  One call of \<open>_phtx_icmp6\<close>, with its keyword arguments as the caller wrote them; a keyword
  the caller did not pass is \<open>None\<close> (an empty list for \<open>icmp6_nd_options\<close>). The
  \<open>echo_tracker\<close> argument only feeds the log and is left out.
\<close>

record phtx_icmp6 =
  ip6_src :: Ip6Address
  ip6_dst :: Ip6Address
  ip6_hop :: int
  icmp6_type :: nat
  icmp6_ns_target_address :: "Ip6Address option"
  icmp6_na_flag_s :: "bool option"
  icmp6_na_flag_o :: "bool option"
  icmp6_na_target_address :: "Ip6Address option"
  icmp6_nd_options :: "Icmp6NdOpt list"
  icmp6_ec_id :: "int option"
  icmp6_ec_seq :: "int option"
  icmp6_ec_data :: "bytes option"

section \<open>The Neighbor Discovery cache (icmp6/nd\_cache.py)\<close>

text \<open>
  \<open>NdCache.CacheEntry\<close>. The constructor reads the clock for \<open>creation_time\<close>; the model
  takes the reading as the argument \<open>now\<close>. Clock readings are Python floats and are
  modelled as reals. \<open>hit_count\<close> is a counter that the code only sets to 0 and
  increments, so it is a natural number; Python's truth test on it is \<open>hit_count \<noteq> 0\<close>.
\<close>

record CacheEntry =
  mac_address :: MacAddress
  permanent :: bool
  creation_time :: real
  hit_count :: nat

definition CacheEntry_init :: "real \<Rightarrow> MacAddress \<Rightarrow> bool \<Rightarrow> CacheEntry" where
  "CacheEntry_init now mac perm =
     \<lparr>mac_address = mac, permanent = perm, creation_time = now, hit_count = 0\<rparr>"

text \<open>
  \<open>self.nd_cache\<close> is a Python dict, which iterates in insertion order: an association
  list. \<open>AList.update\<close> is the dict's item assignment (an existing key keeps its place, a new
  key goes to the end), \<open>AList.delete\<close> is \<open>pop\<close> and \<open>map_of\<close> is \<open>get\<close>.
\<close>

type_synonym NdCache = "(Ip6Address \<times> CacheEntry) list"

text \<open>The two values the cache reads from \<open>config\<close> (the module is not among the sources, so
  they are parameters).\<close>

record config =
  nd_cache_entry_max_age :: real
  nd_cache_entry_refresh_time :: real

text \<open>The loop of \<open>_send_icmp6_neighbor_solicitation\<close> that picks the source address; the
  last argument is the variable \<open>ip6_src\<close>.\<close>

fun pick_ip6_src :: "Ip6Address \<Rightarrow> Ip6Host list \<Rightarrow> Ip6Address \<Rightarrow> Ip6Address" where
  "pick_ip6_src tgt [] src = src"
| "pick_ip6_src tgt (h # hs) src =
     pick_ip6_src tgt hs (if network_contains (host_network h) tgt then host_address h else src)"

text \<open>\<open>NdCache._send_icmp6_neighbor_solicitation\<close>; \<open>hosts\<close> is
  \<open>stack.packet_handler.ip6_host\<close> and \<open>mac\<close> is \<open>stack.packet_handler.mac_unicast\<close>. The
  result is the call handed to the TX dispatcher.\<close>

definition send_icmp6_neighbor_solicitation ::
  "Ip6Host list \<Rightarrow> MacAddress \<Rightarrow> Ip6Address \<Rightarrow> error + phtx_icmp6" where
  "send_icmp6_neighbor_solicitation hosts mac tgt =
     (let src = pick_ip6_src tgt hosts ip6_unspecified in
       (case solicited_node_multicast tgt of
          Inl e \<Rightarrow> Inl e
        | Inr dst \<Rightarrow>
            Inr \<lparr>ip6_src = src, ip6_dst = dst, ip6_hop = 255,
                 icmp6_type = ICMP6_NEIGHBOR_SOLICITATION,
                 icmp6_ns_target_address = Some tgt,
                 icmp6_na_flag_s = None, icmp6_na_flag_o = None,
                 icmp6_na_target_address = None,
                 icmp6_nd_options = [Icmp6NdOptSLLA mac],
                 icmp6_ec_id = None, icmp6_ec_seq = None, icmp6_ec_data = None\<rparr>))"

text \<open>\<open>NdCache.add_entry\<close>.\<close>

definition add_entry :: "real \<Rightarrow> Ip6Address \<Rightarrow> MacAddress \<Rightarrow> NdCache \<Rightarrow> NdCache" where
  "add_entry now ip6_address mac c = AList.update ip6_address (CacheEntry_init now mac False) c"

text \<open>\<open>NdCache.find_entry\<close>: the returned MAC (or \<open>None\<close>), the cache after the call, and the
  calls handed to the TX dispatcher. A \<open>CacheEntry\<close> object is always true, so the test of
  the \<open>get\<close> is a test for presence.\<close>

definition find_entry ::
  "Ip6Host list \<Rightarrow> MacAddress \<Rightarrow> Ip6Address \<Rightarrow> NdCache
     \<Rightarrow> error + (MacAddress option \<times> NdCache \<times> phtx_icmp6 list)" where
  "find_entry hosts mac ip6_address c =
     (case map_of c ip6_address of
        Some nd_entry \<Rightarrow>
          Inr (Some (mac_address nd_entry),
               AList.update ip6_address (nd_entry\<lparr>hit_count := hit_count nd_entry + 1\<rparr>) c,
               [])
      | None \<Rightarrow>
          (case send_icmp6_neighbor_solicitation hosts mac ip6_address of
             Inl e \<Rightarrow> Inl e
           | Inr p \<Rightarrow> Inr (None, c, [p])))"

text \<open>
  The body of the loop of \<open>NdCache._maintain_cache\<close> for one key of the snapshot. The state
  is the cache and the calls handed to the TX dispatcher so far. \<open>self.nd_cache[key]\<close>
  raises \<open>KeyError\<close> on a missing key. Every reading of the clock during one sweep is the
  sweep's time \<open>now\<close>.
\<close>

definition maintain_entry ::
  "config \<Rightarrow> Ip6Host list \<Rightarrow> MacAddress \<Rightarrow> real \<Rightarrow> Ip6Address
     \<Rightarrow> NdCache \<times> phtx_icmp6 list \<Rightarrow> error + (NdCache \<times> phtx_icmp6 list)" where
  "maintain_entry cfg hosts mac now ip6_address st =
     (case st of (c, out) \<Rightarrow>
       (case map_of c ip6_address of
          None \<Rightarrow> Inl KeyError
        | Some e \<Rightarrow>
            if permanent e then Inr (c, out)
            else if now - creation_time e > nd_cache_entry_max_age cfg
              then Inr (AList.delete ip6_address c, out)
            else if now - creation_time e
                      > nd_cache_entry_max_age cfg - nd_cache_entry_refresh_time cfg
                    \<and> hit_count e \<noteq> 0
              then (case send_icmp6_neighbor_solicitation hosts mac ip6_address of
                      Inl err \<Rightarrow> Inl err
                    | Inr p \<Rightarrow>
                        Inr (AList.update ip6_address (e\<lparr>hit_count := 0\<rparr>) c, out @ [p]))
            else Inr (c, out)))"

text \<open>The loop over the snapshot \<open>list(self.nd_cache)\<close>; an exception ends it.\<close>

fun maintain_keys ::
  "config \<Rightarrow> Ip6Host list \<Rightarrow> MacAddress \<Rightarrow> real \<Rightarrow> Ip6Address list
     \<Rightarrow> NdCache \<times> phtx_icmp6 list \<Rightarrow> error + (NdCache \<times> phtx_icmp6 list)" where
  "maintain_keys cfg hosts mac now [] st = Inr st"
| "maintain_keys cfg hosts mac now (k # ks) st =
     (case maintain_entry cfg hosts mac now k st of
        Inl err \<Rightarrow> Inl err
      | Inr st' \<Rightarrow> maintain_keys cfg hosts mac now ks st')"

text \<open>\<open>NdCache._maintain_cache\<close>, run by the timer every second.\<close>

definition maintain_cache ::
  "config \<Rightarrow> Ip6Host list \<Rightarrow> MacAddress \<Rightarrow> real \<Rightarrow> NdCache
     \<Rightarrow> error + (NdCache \<times> phtx_icmp6 list)" where
  "maintain_cache cfg hosts mac now c = maintain_keys cfg hosts mac now (map fst c) (c, [])"







text \<open>The Neighbor Solicitation for a target, as a value: what
  \<open>_send_icmp6_neighbor_solicitation\<close> hands to the TX dispatcher.\<close>

definition ns_call :: "Ip6Host list \<Rightarrow> MacAddress \<Rightarrow> Ip6Address \<Rightarrow> phtx_icmp6" where
  "ns_call hosts mac tgt =
     \<lparr>ip6_src = pick_ip6_src tgt hosts ip6_unspecified,
      ip6_dst = ip6_solicited_node_prefix + tgt mod 2 ^ 24,
      ip6_hop = 255,
      icmp6_type = ICMP6_NEIGHBOR_SOLICITATION,
      icmp6_ns_target_address = Some tgt,
      icmp6_na_flag_s = None, icmp6_na_flag_o = None,
      icmp6_na_target_address = None,
      icmp6_nd_options = [Icmp6NdOptSLLA mac],
      icmp6_ec_id = None, icmp6_ec_seq = None, icmp6_ec_data = None\<rparr>"


section \<open>The inbound ICMPv6 handler (icmp6/phrx.py)\<close>

text \<open>
  Modelled from the spec: the Prefix Information option class (icmp6/fpp.py) is not among
  the sources. The handler only stores the parsed options; they are kept as the option's
  bytes.
\<close>

type_synonym Icmp6NdOptPI = bytes

text \<open>
  The packet after \<open>Icmp6Parser(packet_rx)\<close> has run (the parser is not among the sources):
  \<open>parse_failed\<close> is the parser's error message, empty on success; the other fields are
  those of \<open>packet_rx.ip6\<close> and \<open>packet_rx.icmp6\<close> that the handler reads.
\<close>

record PacketRx =
  parse_failed :: string
  rx_ip6_src :: Ip6Address
  rx_ip6_dst :: Ip6Address
  rx_icmp6_type :: nat
  ns_target_address :: Ip6Address
  na_target_address :: Ip6Address
  nd_opt_slla :: "MacAddress option"
  nd_opt_tlla :: "MacAddress option"
  nd_opt_pi :: "Icmp6NdOptPI list"
  ec_id :: int
  ec_seq :: int
  ec_data :: bytes
  un_data :: bytes

text \<open>The arguments the handler gives to \<open>UdpMetadata\<close>.\<close>

record UdpMetadata =
  local_ip_address :: Ip6Address
  remote_ip_address :: Ip6Address
  local_port :: int
  remote_port :: int

text \<open>
  The packet handler object \<open>self\<close>, with the socket registry \<open>stack.sockets\<close>. The two
  events are counted by their \<open>release()\<close> calls; \<open>notified\<close> lists the sockets whose
  \<open>notify_unreachable()\<close> was called and \<open>phtx\<close> the calls of \<open>_phtx_icmp6\<close>, both in
  order. Socket objects are of any type \<open>'s\<close>.
\<close>

record 's PacketHandler =
  ip6_unicast :: "Ip6Address list"
  ip6_unicast_candidate :: "Ip6Address option"
  ip6_host :: "Ip6Host list"
  mac_unicast :: MacAddress
  icmp6_nd_cache :: NdCache
  icmp6_nd_dad_tlla :: "MacAddress option"
  event_icmp6_nd_dad :: nat
  icmp6_ra_prefixes :: "(Icmp6NdOptPI \<times> Ip6Address) list"
  event_icmp6_ra :: nat
  sockets :: "string \<rightharpoonup> 's"
  notified :: "'s list"
  phtx :: "phtx_icmp6 list"

text \<open>The Neighbor Solicitation branch.\<close>

definition phrx_icmp6_ns :: "real \<Rightarrow> 's PacketHandler \<Rightarrow> PacketRx \<Rightarrow> 's PacketHandler" where
  "phrx_icmp6_ns now self packet_rx =
     (if ns_target_address packet_rx \<notin> set (ip6_unicast self) then self
      else
        let self1 =
              (if \<not> (is_unspecified (rx_ip6_src packet_rx) \<or> is_multicast (rx_ip6_src packet_rx))
                  \<and> nd_opt_slla packet_rx \<noteq> None
               then self\<lparr>icmp6_nd_cache :=
                      add_entry now (rx_ip6_src packet_rx) (the (nd_opt_slla packet_rx))
                        (icmp6_nd_cache self)\<rparr>
               else self);
            ip6_nd_dad = is_unspecified (rx_ip6_src packet_rx)
        in self1\<lparr>phtx := phtx self1 @
             [\<lparr>ip6_src = ns_target_address packet_rx,
               ip6_dst = (if ip6_nd_dad then ip6_all_nodes else rx_ip6_src packet_rx),
               ip6_hop = 255,
               icmp6_type = ICMP6_NEIGHBOR_ADVERTISEMENT,
               icmp6_ns_target_address = None,
               icmp6_na_flag_s = Some (\<not> ip6_nd_dad),
               icmp6_na_flag_o = Some ip6_nd_dad,
               icmp6_na_target_address = Some (ns_target_address packet_rx),
               icmp6_nd_options = [Icmp6NdOptTLLA (mac_unicast self)],
               icmp6_ec_id = None, icmp6_ec_seq = None, icmp6_ec_data = None\<rparr>]\<rparr>)"

text \<open>The Neighbor Advertisement branch. \<open>ip6_unicast_candidate\<close> is \<open>None\<close> when no address
  is being checked, and an address is never equal to \<open>None\<close>.\<close>

definition phrx_icmp6_na :: "real \<Rightarrow> 's PacketHandler \<Rightarrow> PacketRx \<Rightarrow> 's PacketHandler" where
  "phrx_icmp6_na now self packet_rx =
     (if Some (na_target_address packet_rx) = ip6_unicast_candidate self
      then self\<lparr>icmp6_nd_dad_tlla := nd_opt_tlla packet_rx,
                event_icmp6_nd_dad := event_icmp6_nd_dad self + 1\<rparr>
      else if nd_opt_tlla packet_rx \<noteq> None
      then self\<lparr>icmp6_nd_cache :=
             add_entry now (na_target_address packet_rx) (the (nd_opt_tlla packet_rx))
               (icmp6_nd_cache self)\<rparr>
      else self)"

text \<open>The Router Advertisement branch.\<close>

definition phrx_icmp6_ra :: "'s PacketHandler \<Rightarrow> PacketRx \<Rightarrow> 's PacketHandler" where
  "phrx_icmp6_ra self packet_rx =
     self\<lparr>icmp6_ra_prefixes := map (\<lambda>pi. (pi, rx_ip6_src packet_rx)) (nd_opt_pi packet_rx),
          event_icmp6_ra := event_icmp6_ra self + 1\<rparr>"

text \<open>The Echo Request branch.\<close>

definition phrx_icmp6_echo :: "'s PacketHandler \<Rightarrow> PacketRx \<Rightarrow> 's PacketHandler" where
  "phrx_icmp6_echo self packet_rx =
     self\<lparr>phtx := phtx self @
       [\<lparr>ip6_src = rx_ip6_dst packet_rx,
         ip6_dst = rx_ip6_src packet_rx,
         ip6_hop = 255,
         icmp6_type = ICMP6_ECHOR_REPLY,
         icmp6_ns_target_address = None,
         icmp6_na_flag_s = None, icmp6_na_flag_o = None,
         icmp6_na_target_address = None,
         icmp6_nd_options = [],
         icmp6_ec_id = Some (ec_id packet_rx),
         icmp6_ec_seq = Some (ec_seq packet_rx),
         icmp6_ec_data = Some (ec_data packet_rx)\<rparr>]\<rparr>"

text \<open>Python's slice \<open>xs[a:b]\<close> for \<open>0 \<le> a \<le> b\<close>; it stops at the end of \<open>xs\<close>.\<close>

definition slice :: "'a list \<Rightarrow> nat \<Rightarrow> nat \<Rightarrow> 'a list" where
  "slice xs a b = take (b - a) (drop a xs)"

text \<open>The loop over \<open>packet.socket_patterns\<close>: the socket of the first pattern that
  \<open>stack.sockets.get\<close> finds (socket objects are true), if any.\<close>

fun first_socket :: "(string \<rightharpoonup> 's) \<Rightarrow> string list \<Rightarrow> 's option" where
  "first_socket reg [] = None"
| "first_socket reg (socket_pattern # ps) =
     (case reg socket_pattern of
        Some socket \<Rightarrow> Some socket
      | None \<Rightarrow> first_socket reg ps)"

text \<open>The integrity check on the data of an Unreachable message. Python's \<open>and\<close> reads
  \<open>frame[0]\<close> and \<open>frame[6]\<close> only when the length test has passed.\<close>

definition unreachable_guard :: "bytes \<Rightarrow> bool" where
  "unreachable_guard frame \<longleftrightarrow>
     (if length frame \<ge> IP6_HEADER_LEN + UDP_HEADER_LEN
      then drop_bit 4 (frame ! 0) = 6 \<and> frame ! 6 = IP6_NEXT_HEADER_UDP
      else False)"

text \<open>The \<open>UdpMetadata\<close> built from the data.\<close>

definition unreachable_metadata :: "bytes \<Rightarrow> error + UdpMetadata" where
  "unreachable_metadata frame =
     (let udp_offset = IP6_HEADER_LEN in
     (case Ip6Address_of_bytes (slice frame 8 24) of Inl e \<Rightarrow> Inl e | Inr lip \<Rightarrow>
     (case Ip6Address_of_bytes (slice frame 24 40) of Inl e \<Rightarrow> Inl e | Inr rip \<Rightarrow>
     (case unpack_H (slice frame (udp_offset + 0) (udp_offset + 2)) of Inl e \<Rightarrow> Inl e | Inr lp \<Rightarrow>
     (case unpack_H (slice frame (udp_offset + 2) (udp_offset + 4)) of Inl e \<Rightarrow> Inl e | Inr rp \<Rightarrow>
        Inr \<lparr>local_ip_address = lip, remote_ip_address = rip,
             local_port = lp, remote_port = rp\<rparr>)))))"

text \<open>The Destination Unreachable branch. \<open>socket_patterns\<close> is the property of
  \<open>UdpMetadata\<close> (udp/metadata.py, not among the sources) and is a parameter.\<close>

definition phrx_icmp6_unreachable ::
  "(UdpMetadata \<Rightarrow> string list) \<Rightarrow> 's PacketHandler \<Rightarrow> PacketRx \<Rightarrow> error + 's PacketHandler" where
  "phrx_icmp6_unreachable socket_patterns self packet_rx =
     (let frame = un_data packet_rx in
      if unreachable_guard frame then
        (case unreachable_metadata frame of
           Inl e \<Rightarrow> Inl e
         | Inr packet \<Rightarrow>
             (case first_socket (sockets self) (socket_patterns packet) of
                Some socket \<Rightarrow> Inr (self\<lparr>notified := notified self @ [socket]\<rparr>)
              | None \<Rightarrow> Inr self))
      else Inr self)"

text \<open>\<open>_phrx_icmp6\<close>: the dispatch on the message type, in the order of the source. \<open>now\<close> is
  the reading of the clock taken by a \<open>CacheEntry\<close> the call creates.\<close>

definition phrx_icmp6 ::
  "(UdpMetadata \<Rightarrow> string list) \<Rightarrow> real \<Rightarrow> 's PacketHandler \<Rightarrow> PacketRx
     \<Rightarrow> error + 's PacketHandler" where
  "phrx_icmp6 socket_patterns now self packet_rx =
     (if parse_failed packet_rx \<noteq> [] then Inr self
      else if rx_icmp6_type packet_rx = ICMP6_NEIGHBOR_SOLICITATION
        then Inr (phrx_icmp6_ns now self packet_rx)
      else if rx_icmp6_type packet_rx = ICMP6_NEIGHBOR_ADVERTISEMENT
        then Inr (phrx_icmp6_na now self packet_rx)
      else if rx_icmp6_type packet_rx = ICMP6_ROUTER_SOLICITATION
        then Inr self
      else if rx_icmp6_type packet_rx = ICMP6_ROUTER_ADVERTISEMENT
        then Inr (phrx_icmp6_ra self packet_rx)
      else if rx_icmp6_type packet_rx = ICMP6_ECHOR_REQUEST
        then Inr (phrx_icmp6_echo self packet_rx)
      else if rx_icmp6_type packet_rx = ICMP6_UNREACHABLE
        then phrx_icmp6_unreachable socket_patterns self packet_rx
      else Inr self)"

section \<open>Notions used to state the properties\<close>







text \<open>The 4-tuple the Unreachable branch reads from the data, with every field as the
  big-endian number of its bytes.\<close>

definition unreachable_tuple :: "bytes \<Rightarrow> UdpMetadata" where
  "unreachable_tuple frame =
     \<lparr>local_ip_address = unpack_be (slice frame 8 24),
      remote_ip_address = unpack_be (slice frame 24 40),
      local_port = unpack_be (slice frame 40 42),
      remote_port = unpack_be (slice frame 42 44)\<rparr>"

section \<open>A scenario\<close>

text \<open>
  The stack of the spec's scenarios: the address \<open>fe80::abcd\<close> on the network
  \<open>fe80::/64\<close>, Duplicate Address Detection running for \<open>fe80::1\<close>, an empty cache, and one
  UDP socket listening on port 12345. The packet is sent by \<open>fe80::2\<close>; its type and its
  other fields are set where it is used.
\<close>

definition scenario_handler :: "nat PacketHandler" where
  "scenario_handler =
     \<lparr>ip6_unicast = [0xfe80000000000000000000000000abcd],
      ip6_unicast_candidate = Some 0xfe800000000000000000000000000001,
      ip6_host = [\<lparr>host_address = 0xfe80000000000000000000000000abcd,
                   host_network = \<lparr>net_address = 0xfe800000000000000000000000000000,
                                    net_mask = 0xffffffffffffffff0000000000000000\<rparr>,
                   gateway = None\<rparr>],
      mac_unicast = 0x020000000001,
      icmp6_nd_cache = [],
      icmp6_nd_dad_tlla = None,
      event_icmp6_nd_dad = 0,
      icmp6_ra_prefixes = [],
      event_icmp6_ra = 0,
      sockets = [''AF_INET6/SOCK_DGRAM/*/12345/*/*'' \<mapsto> 1],
      notified = [],
      phtx = []\<rparr>"


definition scenario_packet :: PacketRx where
  "scenario_packet =
     \<lparr>parse_failed = [],
      rx_ip6_src = 0xfe800000000000000000000000000002,
      rx_ip6_dst = 0xfe80000000000000000000000000abcd,
      rx_icmp6_type = 0,
      ns_target_address = 0xfe80000000000000000000000000abcd,
      na_target_address = 0x20010db8000000000000000000000001,
      nd_opt_slla = Some 0xaabbccddeeff,
      nd_opt_tlla = Some 0xaabbccddeeff,
      nd_opt_pi = [],
      ec_id = 0, ec_seq = 0, ec_data = [],
      un_data = []\<rparr>"

text \<open>Two socket patterns for a packet, the more specific one first.\<close>

definition scenario_patterns :: "UdpMetadata \<Rightarrow> string list" where
  "scenario_patterns packet =
     [''AF_INET6/SOCK_DGRAM/exact'',
      if local_port packet = 12345 then ''AF_INET6/SOCK_DGRAM/*/12345/*/*''
      else ''AF_INET6/SOCK_DGRAM/*/other/*/*'']"

text \<open>The start of a UDP datagram from \<open>fe80::abcd\<close>, port 12345, to \<open>fe80::2\<close>, port 53.\<close>

definition scenario_frame :: bytes where
  "scenario_frame =
     [0x60, 0, 0, 0, 0, 8, 17, 64,
      0xfe, 0x80, 0, 0, 0, 0, 0, 0, 0, 0, 0, 0, 0, 0, 0xab, 0xcd,
      0xfe, 0x80, 0, 0, 0, 0, 0, 0, 0, 0, 0, 0, 0, 0, 0, 2,
      0x30, 0x39, 0, 53, 0, 8, 0, 0]"

section \<open>Addresses and the Neighbor Solicitation\<close>

lemma and_mask24: "(a::int) AND 0xFFFFFF = a mod 2 ^ 24"
  using take_bit_eq_mask[of 24 a] by (simp add: take_bit_eq_mod mask_eq_exp_minus_1)

lemma prefix_push: "ip6_solicited_node_prefix = push_bit 24 (0xff0200000000000000000001ff::int)"
  by (simp add: ip6_solicited_node_prefix_def push_bit_eq_mult)

lemma take_bit_and_push_bit: "take_bit n (a::int) AND push_bit n k = 0"
  by (rule bit_eqI) (auto simp add: bit_simps)

lemma or_prefix: "((a::int) AND 0xFFFFFF) OR ip6_solicited_node_prefix = ip6_solicited_node_prefix + a mod 2 ^ 24"
proof -
  have "take_bit 24 a + push_bit 24 (0xff0200000000000000000001ff::int)
          = take_bit 24 a OR push_bit 24 (0xff0200000000000000000001ff::int)"
    by (rule disjunctive_add_eq_or) (rule take_bit_and_push_bit)
  then have "take_bit 24 a + ip6_solicited_node_prefix = take_bit 24 a OR ip6_solicited_node_prefix"
    by (simp only: prefix_push)
  then show ?thesis by (simp add: and_mask24 take_bit_eq_mod)
qed

lemma solicited_node_multicast_eq:
  "solicited_node_multicast a = Inr (ip6_solicited_node_prefix + a mod 2 ^ 24)"
proof -
  have "0 \<le> a mod 2 ^ 24" "a mod 2 ^ 24 < 2 ^ 24" by simp_all
  then show ?thesis
    unfolding solicited_node_multicast_def or_prefix Ip6Address_of_int_def
    by (simp add: ip6_solicited_node_prefix_def)
qed

lemma send_ns_eq:
  "send_icmp6_neighbor_solicitation hosts mac tgt = Inr (ns_call hosts mac tgt)"
  by (simp add: send_icmp6_neighbor_solicitation_def solicited_node_multicast_eq ns_call_def)



section \<open>The maintenance sweep\<close>







section \<open>Sequences of cache operations\<close>


lemma find_entry_miss:
  "map_of c k = None \<Longrightarrow> find_entry hosts mac k c = Inr (None, c, [ns_call hosts mac k])"
  by (simp add: find_entry_def send_ns_eq)









section \<open>The inbound handler\<close>

lemma unpack_be_append:
  "unpack_be (xs @ ys) = unpack_be xs * 256 ^ length ys + unpack_be ys"
  by (induction xs) (simp_all add: algebra_simps power_add)

lemma Ip6Address_of_bytes_eq:
  assumes "length b = 16"
  shows "Ip6Address_of_bytes b = Inr (unpack_be b)"
proof -
  define b1 where "b1 = take 4 b"
  define b2 where "b2 = take 4 (drop 4 b)"
  define b3 where "b3 = take 4 (drop 8 b)"
  define b4 where "b4 = take 4 (drop 12 b)"
  have len: "length b1 = 4" "length b2 = 4" "length b3 = 4" "length b4 = 4"
    using assms by (simp_all add: b1_def b2_def b3_def b4_def)
  have "b = take 4 b @ drop 4 b" by simp
  also have "drop 4 b = take 4 (drop 4 b) @ drop 8 b"
    using append_take_drop_id[of 4 "drop 4 b"] by simp
  also have "drop 8 b = take 4 (drop 8 b) @ drop 12 b"
    using append_take_drop_id[of 4 "drop 8 b"] by simp
  also have "drop 12 b = take 4 (drop 12 b)" using assms by simp
  finally have split: "b = b1 @ b2 @ b3 @ b4"
    by (simp add: b1_def b2_def b3_def b4_def)
  have "unpack_be b = push_bit 96 (unpack_be b1) + push_bit 64 (unpack_be b2)
                        + push_bit 32 (unpack_be b3) + unpack_be b4"
    by (subst split) (simp add: unpack_be_append len push_bit_eq_mult algebra_simps)
  then show ?thesis
    using assms by (simp add: Ip6Address_of_bytes_def b1_def b2_def b3_def b4_def)
qed

lemma unreachable_metadata_eq:
  assumes "length frame \<ge> 48"
  shows "unreachable_metadata frame = Inr (unreachable_tuple frame)"
proof -
  have a: "Ip6Address_of_bytes (slice frame 8 24) = Inr (unpack_be (slice frame 8 24))"
    using assms by (intro Ip6Address_of_bytes_eq) (simp add: slice_def)
  have b: "Ip6Address_of_bytes (slice frame 24 40) = Inr (unpack_be (slice frame 24 40))"
    using assms by (intro Ip6Address_of_bytes_eq) (simp add: slice_def)
  have c: "unpack_H (slice frame 40 42) = Inr (unpack_be (slice frame 40 42))"
    using assms by (simp add: unpack_H_def slice_def)
  have d: "unpack_H (slice frame 42 44) = Inr (unpack_be (slice frame 42 44))"
    using assms by (simp add: unpack_H_def slice_def)
  show ?thesis
    by (simp add: unreachable_metadata_def IP6_HEADER_LEN_def a b c d unreachable_tuple_def)
qed

lemma first_socket_None: "first_socket reg ps = None \<longleftrightarrow> (\<forall>p\<in>set ps. reg p = None)"
  by (induction ps) (auto split: option.splits)

lemma first_socket_Some:
  "first_socket reg ps = Some s \<longleftrightarrow>
     (\<exists>i<length ps. reg (ps ! i) = Some s \<and> (\<forall>j<i. reg (ps ! j) = None))"
proof (induction ps)
  case Nil
  then show ?case by simp
next
  case (Cons p ps)
  show ?case
  proof (cases "reg p")
    case None
    have "(\<exists>i<length (p # ps). reg ((p # ps) ! i) = Some s \<and> (\<forall>j<i. reg ((p # ps) ! j) = None))
          \<longleftrightarrow> (\<exists>i<length ps. reg (ps ! i) = Some s \<and> (\<forall>j<i. reg (ps ! j) = None))"
      (is "?L \<longleftrightarrow> ?R")
    proof
      assume ?L
      then obtain i where i: "i < length (p # ps)" "reg ((p # ps) ! i) = Some s"
        "\<forall>j<i. reg ((p # ps) ! j) = None" by blast
      then obtain i' where i': "i = Suc i'" using None by (cases i) auto
      have "\<forall>j<i'. reg (ps ! j) = None"
      proof (intro allI impI)
        fix j assume "j < i'"
        then have "Suc j < i" using i' by simp
        then have "reg ((p # ps) ! Suc j) = None" using i(3) by blast
        then show "reg (ps ! j) = None" by simp
      qed
      then show ?R using i i' by auto
    next
      assume ?R
      then obtain i where i: "i < length ps" "reg (ps ! i) = Some s" "\<forall>j<i. reg (ps ! j) = None"
        by blast
      have "\<forall>j<Suc i. reg ((p # ps) ! j) = None"
      proof (intro allI impI)
        fix j assume "j < Suc i"
        then show "reg ((p # ps) ! j) = None" using i(3) None by (cases j) auto
      qed
      then show ?L using i by (intro exI[of _ "Suc i"]) auto
    qed
    then show ?thesis using None Cons.IH by simp
  next
    case (Some s')
    have "(\<exists>i<length (p # ps). reg ((p # ps) ! i) = Some s \<and> (\<forall>j<i. reg ((p # ps) ! j) = None))
          \<longleftrightarrow> s' = s"
    proof
      assume "\<exists>i<length (p # ps). reg ((p # ps) ! i) = Some s \<and> (\<forall>j<i. reg ((p # ps) ! j) = None)"
      then obtain i where i: "reg ((p # ps) ! i) = Some s" "\<forall>j<i. reg ((p # ps) ! j) = None"
        by blast
      have "i = 0"
      proof (rule ccontr)
        assume "i \<noteq> 0"
        then have "reg ((p # ps) ! 0) = None" using i(2) by blast
        then show False using Some by simp
      qed
      then show "s' = s" using i(1) Some by simp
    next
      assume "s' = s"
      then show "\<exists>i<length (p # ps). reg ((p # ps) ! i) = Some s \<and> (\<forall>j<i. reg ((p # ps) ! j) = None)"
        using Some by (intro exI[of _ 0]) simp
    qed
    then show ?thesis using Some by simp
  qed
qed

lemma maintain_entry_out:
  assumes "maintain_entry cfg hosts mac now k (c, out) = Inr (c', out')"
  shows "out' = out \<or> out' = out @ [ns_call hosts mac k]"
  using assms
  by (auto simp: maintain_entry_def send_ns_eq split: option.splits if_splits)

lemma maintain_keys_out:
  assumes "maintain_keys cfg hosts mac now ks (c, out) = Inr (c', out')"
  shows "\<exists>new. out' = out @ new \<and> (\<forall>p\<in>set new. \<exists>k\<in>set ks. p = ns_call hosts mac k)"
  using assms
proof (induction ks arbitrary: c out)
  case Nil
  then show ?case by simp
next
  case (Cons k ks)
  from Cons.prems obtain c1 out1 where
    s: "maintain_entry cfg hosts mac now k (c, out) = Inr (c1, out1)"
    and r: "maintain_keys cfg hosts mac now ks (c1, out1) = Inr (c', out')"
    by (auto split: sum.splits)
  from Cons.IH[OF r] obtain new where
    n: "out' = out1 @ new" "\<forall>p\<in>set new. \<exists>k\<in>set ks. p = ns_call hosts mac k" by blast
  from maintain_entry_out[OF s] show ?case
  proof
    assume "out1 = out"
    then show ?thesis using n by auto
  next
    assume "out1 = out @ [ns_call hosts mac k]"
    then have "out' = out @ (ns_call hosts mac k # new)" using n by simp
    moreover have "\<forall>p\<in>set (ns_call hosts mac k # new). \<exists>k'\<in>set (k # ks). p = ns_call hosts mac k'"
      using n(2) by auto
    ultimately show ?thesis by blast
  qed
qed

lemma maintain_cache_out:
  assumes "maintain_cache cfg hosts mac now c = Inr (c', out)"
  shows "\<forall>p\<in>set out. \<exists>k\<in>fst ` set c. p = ns_call hosts mac k"
  using maintain_keys_out[of cfg hosts mac now "map fst c" c "[]" c' out] assms
  by (auto simp: maintain_cache_def)

lemma find_entry_out:
  assumes "find_entry hosts mac k c = Inr (r, c', out)"
  shows "out = [] \<or> out = [ns_call hosts mac k]"
  using assms by (auto simp: find_entry_def send_ns_eq split: option.splits)

lemma phrx_icmp6_phtx:
  assumes "phrx_icmp6 sp now self pkt = Inr self'"
  shows "\<exists>new. phtx self' = phtx self @ new \<and> (\<forall>p\<in>set new. ip6_hop p = 255)"
proof -
  have u: "\<And>s'. phrx_icmp6_unreachable sp self pkt = Inr s' \<Longrightarrow> phtx s' = phtx self"
    by (auto simp: phrx_icmp6_unreachable_def Let_def split: if_splits sum.splits option.splits)
  have ns: "\<exists>new. phtx (phrx_icmp6_ns now self pkt) = phtx self @ new \<and> (\<forall>p\<in>set new. ip6_hop p = 255)"
    by (simp add: phrx_icmp6_ns_def Let_def)
  have na: "phtx (phrx_icmp6_na now self pkt) = phtx self"
    by (simp add: phrx_icmp6_na_def)
  have ra: "phtx (phrx_icmp6_ra self pkt) = phtx self"
    by (simp add: phrx_icmp6_ra_def)
  have ec: "\<exists>new. phtx (phrx_icmp6_echo self pkt) = phtx self @ new \<and> (\<forall>p\<in>set new. ip6_hop p = 255)"
    by (simp add: phrx_icmp6_echo_def)
  show ?thesis
    using assms u ns na ra ec
    by (auto simp: phrx_icmp6_def split: if_splits)
qed

section \<open>The claims\<close>







text \<open>
  C4. Inbound Neighbor Solicitation. For a packet that parsed and has the Neighbor
  Solicitation type: when \<open>ns_target_address\<close> is not one of the stack's unicast addresses
  the handler returns with nothing changed and nothing sent. Otherwise the cache becomes
  the result of \<open>add_entry\<close> of the packet's source and its SLLA exactly when the source is
  neither unspecified nor multicast and the packet carries an SLLA option, and stays as it
  is in every other case; one Neighbor Advertisement is appended to the calls of the TX
  dispatcher, with source \<open>ns_target_address\<close>, destination \<open>ff02::1\<close> when the packet's
  source is unspecified and the packet's source otherwise, hop limit 255, flag S set when
  the source is not unspecified, flag O set when it is, target \<open>ns_target_address\<close> and a
  TLLA option with the stack's MAC; nothing else of the handler changes.
\<close>

theorem neighbor_solicitation_handling:
  assumes "parse_failed pkt = []" and "rx_icmp6_type pkt = ICMP6_NEIGHBOR_SOLICITATION"
  shows "(ns_target_address pkt \<notin> set (ip6_unicast self) \<longrightarrow>
            phrx_icmp6 sp now self pkt = Inr self)
       \<and> (ns_target_address pkt \<in> set (ip6_unicast self) \<longrightarrow>
            (\<exists>self'. phrx_icmp6 sp now self pkt = Inr self'
               \<and> icmp6_nd_cache self' =
                   (case nd_opt_slla pkt of
                      Some slla \<Rightarrow>
                        if rx_ip6_src pkt \<noteq> ip6_unspecified \<and> \<not> is_multicast (rx_ip6_src pkt)
                        then add_entry now (rx_ip6_src pkt) slla (icmp6_nd_cache self)
                        else icmp6_nd_cache self
                    | None \<Rightarrow> icmp6_nd_cache self)
               \<and> phtx self' = phtx self @
                   [\<lparr>ip6_src = ns_target_address pkt,
                     ip6_dst = (if rx_ip6_src pkt = ip6_unspecified then ip6_all_nodes
                                else rx_ip6_src pkt),
                     ip6_hop = 255,
                     icmp6_type = ICMP6_NEIGHBOR_ADVERTISEMENT,
                     icmp6_ns_target_address = None,
                     icmp6_na_flag_s = Some (rx_ip6_src pkt \<noteq> ip6_unspecified),
                     icmp6_na_flag_o = Some (rx_ip6_src pkt = ip6_unspecified),
                     icmp6_na_target_address = Some (ns_target_address pkt),
                     icmp6_nd_options = [Icmp6NdOptTLLA (mac_unicast self)],
                     icmp6_ec_id = None, icmp6_ec_seq = None, icmp6_ec_data = None\<rparr>]
               \<and> self' = self\<lparr>icmp6_nd_cache := icmp6_nd_cache self', phtx := phtx self'\<rparr>))"
  using assms
  by (cases "nd_opt_slla pkt")
     (simp_all add: phrx_icmp6_def phrx_icmp6_ns_def Let_def is_unspecified_def ip6_unspecified_def)

theorem neighbor_solicitation_handling_witness:
  "phrx_icmp6 scenario_patterns 10 scenario_handler
     (scenario_packet\<lparr>rx_icmp6_type := 135\<rparr>)
   = Inr (scenario_handler
       \<lparr>icmp6_nd_cache :=
          [(0xfe800000000000000000000000000002,
            \<lparr>mac_address = 0xaabbccddeeff, permanent = False, creation_time = 10, hit_count = 0\<rparr>)],
        phtx :=
          [\<lparr>ip6_src = 0xfe80000000000000000000000000abcd,
            ip6_dst = 0xfe800000000000000000000000000002,
            ip6_hop = 255,
            icmp6_type = 136,
            icmp6_ns_target_address = None,
            icmp6_na_flag_s = Some True,
            icmp6_na_flag_o = Some False,
            icmp6_na_target_address = Some 0xfe80000000000000000000000000abcd,
            icmp6_nd_options = [Icmp6NdOptTLLA 0x020000000001],
            icmp6_ec_id = None, icmp6_ec_seq = None, icmp6_ec_data = None\<rparr>]\<rparr>)
   \<and> phrx_icmp6 scenario_patterns 10 scenario_handler
     (scenario_packet\<lparr>rx_icmp6_type := 135, ns_target_address := 5\<rparr>)
   = Inr scenario_handler"
proof -
  have a: "parse_failed (scenario_packet\<lparr>rx_icmp6_type := 135\<rparr>) = []"
    by (simp add: scenario_packet_def)
  have b: "rx_icmp6_type (scenario_packet\<lparr>rx_icmp6_type := 135\<rparr>) = ICMP6_NEIGHBOR_SOLICITATION"
    by (simp add: ICMP6_NEIGHBOR_SOLICITATION_def)
  have a': "parse_failed (scenario_packet\<lparr>rx_icmp6_type := 135, ns_target_address := 5\<rparr>) = []"
    by (simp add: scenario_packet_def)
  have b': "rx_icmp6_type (scenario_packet\<lparr>rx_icmp6_type := 135, ns_target_address := 5\<rparr>)
              = ICMP6_NEIGHBOR_SOLICITATION"
    by (simp add: ICMP6_NEIGHBOR_SOLICITATION_def)
  show ?thesis
    using neighbor_solicitation_handling[OF a b, of scenario_handler scenario_patterns 10]
          neighbor_solicitation_handling[OF a' b', of scenario_handler scenario_patterns 10]
    by (auto simp: scenario_packet_def scenario_handler_def ip6_unspecified_def is_multicast_def
          add_entry_def CacheEntry_init_def ICMP6_NEIGHBOR_ADVERTISEMENT_def)
qed

text \<open>
  C5. Inbound Neighbor Advertisement. For a packet that parsed and has the Neighbor
  Advertisement type: when \<open>na_target_address\<close> is the current candidate of Duplicate
  Address Detection, the packet's TLLA (present or not) is stored in \<open>icmp6_nd_dad_tlla\<close>,
  the event is released once, and the cache is not modified, also when a TLLA is present.
  Otherwise, when a TLLA is present the cache becomes the result of \<open>add_entry\<close> of
  \<open>na_target_address\<close> and the TLLA; when none is present nothing changes.
\<close>

theorem neighbor_advertisement_handling:
  assumes "parse_failed pkt = []" and "rx_icmp6_type pkt = ICMP6_NEIGHBOR_ADVERTISEMENT"
  shows "(ip6_unicast_candidate self = Some (na_target_address pkt) \<longrightarrow>
            phrx_icmp6 sp now self pkt =
              Inr (self\<lparr>icmp6_nd_dad_tlla := nd_opt_tlla pkt,
                        event_icmp6_nd_dad := event_icmp6_nd_dad self + 1\<rparr>)
            \<and> icmp6_nd_cache (self\<lparr>icmp6_nd_dad_tlla := nd_opt_tlla pkt,
                        event_icmp6_nd_dad := event_icmp6_nd_dad self + 1\<rparr>) = icmp6_nd_cache self)
       \<and> (ip6_unicast_candidate self \<noteq> Some (na_target_address pkt) \<longrightarrow>
            phrx_icmp6 sp now self pkt =
              Inr (case nd_opt_tlla pkt of
                     Some tlla \<Rightarrow>
                       self\<lparr>icmp6_nd_cache :=
                              add_entry now (na_target_address pkt) tlla (icmp6_nd_cache self)\<rparr>
                   | None \<Rightarrow> self))"
  using assms
  by (cases "nd_opt_tlla pkt")
     (auto simp add: phrx_icmp6_def phrx_icmp6_na_def ICMP6_NEIGHBOR_ADVERTISEMENT_def
        ICMP6_NEIGHBOR_SOLICITATION_def)

theorem neighbor_advertisement_handling_witness:
  "phrx_icmp6 scenario_patterns 10 scenario_handler
     (scenario_packet\<lparr>rx_icmp6_type := 136,
                       na_target_address := 0xfe800000000000000000000000000001\<rparr>)
   = Inr (scenario_handler\<lparr>icmp6_nd_dad_tlla := Some 0xaabbccddeeff, event_icmp6_nd_dad := 1\<rparr>)
   \<and> phrx_icmp6 scenario_patterns 10 scenario_handler (scenario_packet\<lparr>rx_icmp6_type := 136\<rparr>)
   = Inr (scenario_handler
       \<lparr>icmp6_nd_cache :=
          [(0x20010db8000000000000000000000001,
            \<lparr>mac_address = 0xaabbccddeeff, permanent = False, creation_time = 10, hit_count = 0\<rparr>)]\<rparr>)"
proof -
  have a: "parse_failed (scenario_packet\<lparr>rx_icmp6_type := 136,
                       na_target_address := 0xfe800000000000000000000000000001\<rparr>) = []"
    by (simp add: scenario_packet_def)
  have b: "rx_icmp6_type (scenario_packet\<lparr>rx_icmp6_type := 136,
                       na_target_address := 0xfe800000000000000000000000000001\<rparr>)
             = ICMP6_NEIGHBOR_ADVERTISEMENT"
    by (simp add: ICMP6_NEIGHBOR_ADVERTISEMENT_def)
  have a': "parse_failed (scenario_packet\<lparr>rx_icmp6_type := 136\<rparr>) = []"
    by (simp add: scenario_packet_def)
  have b': "rx_icmp6_type (scenario_packet\<lparr>rx_icmp6_type := 136\<rparr>) = ICMP6_NEIGHBOR_ADVERTISEMENT"
    by (simp add: ICMP6_NEIGHBOR_ADVERTISEMENT_def)
  show ?thesis
    using neighbor_advertisement_handling[OF a b, of scenario_handler scenario_patterns 10]
          neighbor_advertisement_handling[OF a' b', of scenario_handler scenario_patterns 10]
    by (auto simp: scenario_packet_def scenario_handler_def add_entry_def CacheEntry_init_def)
qed






text \<open>
  C8. Hop limit of emitted messages. Every call that a lookup, a sweep or the inbound
  handler (the Neighbor Advertisement reply and the Echo Reply) hands to the TX dispatcher
  has hop limit 255.
\<close>

theorem hop_limit_255:
  "(\<forall>r c' out. find_entry hosts mac k c = Inr (r, c', out) \<longrightarrow>
       (\<forall>p\<in>set out. ip6_hop p = 255))
   \<and> (\<forall>c' out. maintain_cache cfg hosts mac now c = Inr (c', out) \<longrightarrow>
         (\<forall>p\<in>set out. ip6_hop p = 255))
   \<and> (\<forall>self'. phrx_icmp6 sp now self pkt = Inr self' \<longrightarrow>
         (\<exists>new. phtx self' = phtx self @ new \<and> (\<forall>p\<in>set new. ip6_hop p = 255)))"
proof (intro conjI allI impI)
  fix r c' out
  assume "find_entry hosts mac k c = Inr (r, c', out)"
  from find_entry_out[OF this] show "\<forall>p\<in>set out. ip6_hop p = 255"
    by (auto simp: ns_call_def)
next
  fix c' out
  assume "maintain_cache cfg hosts mac now c = Inr (c', out)"
  from maintain_cache_out[OF this] show "\<forall>p\<in>set out. ip6_hop p = 255"
    by (auto simp: ns_call_def)
next
  fix self'
  assume "phrx_icmp6 sp now self pkt = Inr self'"
  then show "\<exists>new. phtx self' = phtx self @ new \<and> (\<forall>p\<in>set new. ip6_hop p = 255)"
    by (rule phrx_icmp6_phtx)
qed

theorem hop_limit_255_witness:
  "list_all (\<lambda>p. ip6_hop p = 255)
     [ns_call (ip6_host scenario_handler) (mac_unicast scenario_handler)
        0xfe800000000000000000000000123456]
   \<and> (\<exists>self' new.
        phrx_icmp6 scenario_patterns 10 scenario_handler (scenario_packet\<lparr>rx_icmp6_type := 128\<rparr>)
          = Inr self'
        \<and> phtx self' = phtx scenario_handler @ new \<and> length new = 1
        \<and> list_all (\<lambda>p. ip6_hop p = 255) new)"
proof -
  have f: "find_entry (ip6_host scenario_handler) (mac_unicast scenario_handler)
             0xfe800000000000000000000000123456 []
           = Inr (None, [], [ns_call (ip6_host scenario_handler) (mac_unicast scenario_handler)
                                0xfe800000000000000000000000123456])"
    by (simp add: find_entry_miss)
  have e: "phrx_icmp6 scenario_patterns 10 scenario_handler (scenario_packet\<lparr>rx_icmp6_type := 128\<rparr>)
             = Inr (phrx_icmp6_echo scenario_handler (scenario_packet\<lparr>rx_icmp6_type := 128\<rparr>))"
    by (simp add: phrx_icmp6_def scenario_packet_def ICMP6_NEIGHBOR_SOLICITATION_def
          ICMP6_NEIGHBOR_ADVERTISEMENT_def ICMP6_ROUTER_SOLICITATION_def
          ICMP6_ROUTER_ADVERTISEMENT_def ICMP6_ECHOR_REQUEST_def)
  have n: "\<exists>p. phtx (phrx_icmp6_echo scenario_handler (scenario_packet\<lparr>rx_icmp6_type := 128\<rparr>))
             = phtx scenario_handler @ [p]"
    by (simp add: phrx_icmp6_echo_def)
  from hop_limit_255
         [where hosts = "ip6_host scenario_handler" and mac = "mac_unicast scenario_handler"
            and k = "0xfe800000000000000000000000123456" and c = "[]"
            and sp = scenario_patterns and now = 10 and self = scenario_handler
            and pkt = "scenario_packet\<lparr>rx_icmp6_type := 128\<rparr>"]
  have a: "\<forall>p\<in>set [ns_call (ip6_host scenario_handler) (mac_unicast scenario_handler)
                        0xfe800000000000000000000000123456]. ip6_hop p = 255"
    and b: "\<exists>new. phtx (phrx_icmp6_echo scenario_handler (scenario_packet\<lparr>rx_icmp6_type := 128\<rparr>))
                     = phtx scenario_handler @ new \<and> (\<forall>p\<in>set new. ip6_hop p = 255)"
    using f e by auto
  from b n obtain p where
    "phtx (phrx_icmp6_echo scenario_handler (scenario_packet\<lparr>rx_icmp6_type := 128\<rparr>))
       = phtx scenario_handler @ [p]" "ip6_hop p = 255"
    by auto
  then show ?thesis using a e by (auto simp: list_all_iff)
qed

text \<open>
  C9. Destination Unreachable. For a packet that parsed and has the Unreachable type, let
  the patterns be \<open>socket_patterns\<close> of the 4-tuple read from the data (local address from
  bytes 8..24, remote address from bytes 24..40, local port from bytes 40..42, remote port
  from bytes 42..44, all big-endian). When the data has at least \<open>IP6_HEADER_LEN +
  UDP_HEADER_LEN\<close> bytes, its first nibble is 6, its byte 6 is \<open>IP6_NEXT_HEADER_UDP\<close> and some
  pattern has a registered socket, the socket of the first such pattern in the order of the
  patterns, and only it, is notified, and nothing else changes. In every other case the
  handler returns with nothing changed: no socket notified and nothing sent.
\<close>

theorem destination_unreachable_handling:
  assumes "parse_failed pkt = []" and "rx_icmp6_type pkt = ICMP6_UNREACHABLE"
  shows
    "((length (un_data pkt) \<ge> IP6_HEADER_LEN + UDP_HEADER_LEN
        \<and> drop_bit 4 (un_data pkt ! 0) = 6
        \<and> un_data pkt ! 6 = IP6_NEXT_HEADER_UDP
        \<and> (\<exists>pat\<in>set (sp (unreachable_tuple (un_data pkt))). sockets self pat \<noteq> None))
      \<longrightarrow> (\<exists>i s. i < length (sp (unreachable_tuple (un_data pkt)))
               \<and> sockets self (sp (unreachable_tuple (un_data pkt)) ! i) = Some s
               \<and> (\<forall>j<i. sockets self (sp (unreachable_tuple (un_data pkt)) ! j) = None)
               \<and> phrx_icmp6 sp now self pkt = Inr (self\<lparr>notified := notified self @ [s]\<rparr>)))
     \<and> (\<not> (length (un_data pkt) \<ge> IP6_HEADER_LEN + UDP_HEADER_LEN
        \<and> drop_bit 4 (un_data pkt ! 0) = 6
        \<and> un_data pkt ! 6 = IP6_NEXT_HEADER_UDP
        \<and> (\<exists>pat\<in>set (sp (unreachable_tuple (un_data pkt))). sockets self pat \<noteq> None))
      \<longrightarrow> phrx_icmp6 sp now self pkt = Inr self)"
proof -
  let ?frame = "un_data pkt"
  let ?pats = "sp (unreachable_tuple ?frame)"
  have disp: "phrx_icmp6 sp now self pkt = phrx_icmp6_unreachable sp self pkt"
    using assms
    by (simp add: phrx_icmp6_def ICMP6_UNREACHABLE_def ICMP6_NEIGHBOR_SOLICITATION_def
          ICMP6_NEIGHBOR_ADVERTISEMENT_def ICMP6_ROUTER_SOLICITATION_def
          ICMP6_ROUTER_ADVERTISEMENT_def ICMP6_ECHOR_REQUEST_def)
  have guard: "unreachable_guard ?frame \<longleftrightarrow>
      length ?frame \<ge> IP6_HEADER_LEN + UDP_HEADER_LEN \<and> drop_bit 4 (?frame ! 0) = 6
        \<and> ?frame ! 6 = IP6_NEXT_HEADER_UDP"
    by (simp add: unreachable_guard_def)
  show ?thesis
  proof (cases "unreachable_guard ?frame")
    case False
    then have "phrx_icmp6 sp now self pkt = Inr self"
      by (simp add: disp phrx_icmp6_unreachable_def)
    then show ?thesis using False guard by auto
  next
    case True
    then have len: "length ?frame \<ge> 48"
      by (simp add: guard IP6_HEADER_LEN_def UDP_HEADER_LEN_def)
    have run: "phrx_icmp6 sp now self pkt =
        (case first_socket (sockets self) ?pats of
           Some socket \<Rightarrow> Inr (self\<lparr>notified := notified self @ [socket]\<rparr>)
         | None \<Rightarrow> Inr self)"
      using True by (simp add: disp phrx_icmp6_unreachable_def unreachable_metadata_eq[OF len])
    show ?thesis
    proof (cases "first_socket (sockets self) ?pats")
      case None
      then have "\<not> (\<exists>pat\<in>set ?pats. sockets self pat \<noteq> None)"
        by (simp add: first_socket_None)
      moreover have "phrx_icmp6 sp now self pkt = Inr self" using run None by simp
      ultimately show ?thesis by blast
    next
      case (Some s)
      then obtain i where i: "i < length ?pats" "sockets self (?pats ! i) = Some s"
        "\<forall>j<i. sockets self (?pats ! j) = None"
        using first_socket_Some[of "sockets self" ?pats s] by blast
      have r: "phrx_icmp6 sp now self pkt = Inr (self\<lparr>notified := notified self @ [s]\<rparr>)"
        using run Some by simp
      have ex: "\<exists>pat\<in>set ?pats. sockets self pat \<noteq> None"
        using i(1,2) by (metis nth_mem option.distinct(1))
      have "\<exists>i s. i < length ?pats \<and> sockets self (?pats ! i) = Some s
               \<and> (\<forall>j<i. sockets self (?pats ! j) = None)
               \<and> phrx_icmp6 sp now self pkt = Inr (self\<lparr>notified := notified self @ [s]\<rparr>)"
        using i r by blast
      then show ?thesis using ex True guard by blast
    qed
  qed
qed

theorem destination_unreachable_handling_witness:
  "unreachable_tuple scenario_frame =
     \<lparr>local_ip_address = 0xfe80000000000000000000000000abcd,
      remote_ip_address = 0xfe800000000000000000000000000002,
      local_port = 12345, remote_port = 53\<rparr>
   \<and> phrx_icmp6 scenario_patterns 10 scenario_handler
       (scenario_packet\<lparr>rx_icmp6_type := 1, un_data := scenario_frame\<rparr>)
     = Inr (scenario_handler\<lparr>notified := [1]\<rparr>)
   \<and> phrx_icmp6 scenario_patterns 10 scenario_handler
       (scenario_packet\<lparr>rx_icmp6_type := 1, un_data := [0x60, 0, 0, 0, 0, 8, 17, 64]\<rparr>)
     = Inr scenario_handler"
proof -
  have t: "unreachable_tuple scenario_frame =
     \<lparr>local_ip_address = 0xfe80000000000000000000000000abcd,
      remote_ip_address = 0xfe800000000000000000000000000002,
      local_port = 12345, remote_port = 53\<rparr>"
    by (simp add: unreachable_tuple_def scenario_frame_def slice_def)
  have pats: "scenario_patterns (unreachable_tuple scenario_frame) =
      [''AF_INET6/SOCK_DGRAM/exact'', ''AF_INET6/SOCK_DGRAM/*/12345/*/*'']"
    by (simp add: t scenario_patterns_def)
  have a: "parse_failed (scenario_packet\<lparr>rx_icmp6_type := 1, un_data := scenario_frame\<rparr>) = []"
    by (simp add: scenario_packet_def)
  have b: "rx_icmp6_type (scenario_packet\<lparr>rx_icmp6_type := 1, un_data := scenario_frame\<rparr>)
             = ICMP6_UNREACHABLE"
    by (simp add: ICMP6_UNREACHABLE_def)
  have a': "parse_failed (scenario_packet\<lparr>rx_icmp6_type := 1, un_data := [0x60, 0, 0, 0, 0, 8, 17, 64]\<rparr>) = []"
    by (simp add: scenario_packet_def)
  have b': "rx_icmp6_type (scenario_packet\<lparr>rx_icmp6_type := 1, un_data := [0x60, 0, 0, 0, 0, 8, 17, 64]\<rparr>)
             = ICMP6_UNREACHABLE"
    by (simp add: ICMP6_UNREACHABLE_def)
  have g: "length scenario_frame \<ge> IP6_HEADER_LEN + UDP_HEADER_LEN
        \<and> drop_bit 4 (scenario_frame ! 0) = 6
        \<and> scenario_frame ! 6 = IP6_NEXT_HEADER_UDP"
    by (simp add: scenario_frame_def IP6_HEADER_LEN_def UDP_HEADER_LEN_def IP6_NEXT_HEADER_UDP_def)
  have s: "sockets scenario_handler = [''AF_INET6/SOCK_DGRAM/*/12345/*/*'' \<mapsto> 1]"
    by (simp add: scenario_handler_def)
  have n: "notified scenario_handler = []"
    by (simp add: scenario_handler_def)
  have ex: "\<exists>pat\<in>set (scenario_patterns (unreachable_tuple scenario_frame)).
              sockets scenario_handler pat \<noteq> None"
    by (simp add: pats s)
  have one: "\<And>pat v. sockets scenario_handler pat = Some v \<Longrightarrow> v = 1"
    by (simp add: s split: if_splits)
  have "\<exists>i v. sockets scenario_handler
                 (scenario_patterns (unreachable_tuple scenario_frame) ! i) = Some v
             \<and> phrx_icmp6 scenario_patterns 10 scenario_handler
                 (scenario_packet\<lparr>rx_icmp6_type := 1, un_data := scenario_frame\<rparr>)
               = Inr (scenario_handler\<lparr>notified := notified scenario_handler @ [v]\<rparr>)"
    using destination_unreachable_handling[OF a b, of scenario_patterns scenario_handler 10] g ex
    by auto
  then obtain i v where
    v: "sockets scenario_handler (scenario_patterns (unreachable_tuple scenario_frame) ! i) = Some v"
    and r: "phrx_icmp6 scenario_patterns 10 scenario_handler
                 (scenario_packet\<lparr>rx_icmp6_type := 1, un_data := scenario_frame\<rparr>)
               = Inr (scenario_handler\<lparr>notified := notified scenario_handler @ [v]\<rparr>)"
    by blast
  have "v = 1" using one[OF v] .
  then have first: "phrx_icmp6 scenario_patterns 10 scenario_handler
       (scenario_packet\<lparr>rx_icmp6_type := 1, un_data := scenario_frame\<rparr>)
     = Inr (scenario_handler\<lparr>notified := [1]\<rparr>)"
    using r by (simp add: n)
  from destination_unreachable_handling[OF a' b', of scenario_patterns scenario_handler 10]
  have second: "phrx_icmp6 scenario_patterns 10 scenario_handler
       (scenario_packet\<lparr>rx_icmp6_type := 1, un_data := [0x60, 0, 0, 0, 0, 8, 17, 64]\<rparr>)
     = Inr scenario_handler"
    by (simp add: IP6_HEADER_LEN_def UDP_HEADER_LEN_def)
  show ?thesis using t first second by simp
qed



end
